theory Spec2Isabelle
  imports Complex_Main
begin

section \<open>Weather forecast client types: \<open>py/frequenz/client/weather/_types.py\<close>\<close>

text \<open>
  The development follows the module top to bottom: the feature enum and its
  conversion from the protobuf value, the location value type, the conversion of a
  live forecast message into a three-dimensional array (\<open>Forecasts.to_ndarray_vlf\<close>)
  and the flattening of a historical forecast message into rows
  (\<open>HistoricalForecasts.flatten\<close> and the module function \<open>flatten\<close>).

  Python exceptions are values of the type \<open>exn\<close>, and a function that can raise
  returns \<open>exn + 'a\<close> with \<open>Inl\<close> for the exception. Output written by a function
  (log records, printed lines) is returned next to its result.
\<close>

subsection \<open>Exceptions\<close>

datatype exn =
  ValueError string
    \<comment> \<open>\<open>raise ValueError(msg)\<close>\<close>
  | NotAValidForecastFeature int
    \<comment> \<open>the \<open>ValueError\<close> of \<open>enum.Enum\<close> for a lookup by a value no member has\<close>
  | IndexError
    \<comment> \<open>indexing a repeated protobuf field or an array out of range\<close>
  | RuntimeError string exn
    \<comment> \<open>\<open>raise RuntimeError(msg) from e\<close>: the message and the cause \<open>e\<close>\<close>

text \<open>Both \<open>ValueError\<close> and \<open>NotAValidForecastFeature\<close> are Python's \<open>ValueError\<close>.\<close>

fun is_ValueError :: "exn \<Rightarrow> bool" where
  "is_ValueError (ValueError _) = True"
| "is_ValueError (NotAValidForecastFeature _) = True"
| "is_ValueError IndexError = False"
| "is_ValueError (RuntimeError _ _) = False"

definition bind_exn :: "exn + 'a \<Rightarrow> ('a \<Rightarrow> exn + 'b) \<Rightarrow> exn + 'b" where
  "bind_exn m f = (case m of Inl e \<Rightarrow> Inl e | Inr x \<Rightarrow> f x)"

text \<open>\<open>xs[i]\<close> for an index that is never negative.\<close>

definition getitem :: "'a list \<Rightarrow> nat \<Rightarrow> exn + 'a" where
  "getitem xs i = (if i < length xs then Inr (xs ! i) else Inl IndexError)"

subsection \<open>\<open>ForecastFeature\<close>\<close>

datatype ForecastFeature =
  UNSPECIFIED
  | TEMPERATURE_2_METRE
  | U_WIND_COMPONENT_100_METRE
  | V_WIND_COMPONENT_100_METRE
  | U_WIND_COMPONENT_10_METRE
  | V_WIND_COMPONENT_10_METRE
  | SURFACE_SOLAR_RADIATION_DOWNWARDS
  | SURFACE_NET_SOLAR_RADIATION

text \<open>The members in definition order, as iterating over the enum class yields them.\<close>

definition members :: "ForecastFeature list" where
  "members =
     [UNSPECIFIED, TEMPERATURE_2_METRE, U_WIND_COMPONENT_100_METRE,
      V_WIND_COMPONENT_100_METRE, U_WIND_COMPONENT_10_METRE, V_WIND_COMPONENT_10_METRE,
      SURFACE_SOLAR_RADIATION_DOWNWARDS, SURFACE_NET_SOLAR_RADIATION]"

text \<open>
  The value of a member is the integer that the generated module \<open>weather_pb2\<close> gives
  to the protobuf enum constant of the same name. That module is not among the source
  files, so the values are a parameter \<open>wire :: ForecastFeature \<Rightarrow> int\<close> of everything
  that uses them. Two members with one value would be one member under two names in
  Python; the eight constructors stand for eight members, so \<open>wire\<close> is meant injective,
  and theorems that depend on it say so.

  \<open>ForecastFeature(v)\<close>, the lookup of a member by value, raises \<open>ValueError\<close> when no
  member has the value.
\<close>

definition ForecastFeature_call :: "(ForecastFeature \<Rightarrow> int) \<Rightarrow> int \<Rightarrow> exn + ForecastFeature" where
  "ForecastFeature_call wire v =
     (case find (\<lambda>t. wire t = v) members of
        None \<Rightarrow> Inl (NotAValidForecastFeature v)
      | Some t \<Rightarrow> Inr t)"

text \<open>A record of the module's logger.\<close>

datatype log_record =
  Unknown_forecast_feature int
    \<comment> \<open>\<open>"Unknown forecast feature %s. Returning UNSPECIFIED."\<close>\<close>

text \<open>\<open>ForecastFeature.from_pb\<close>: the member and the log records written.\<close>

definition ForecastFeature_from_pb ::
  "(ForecastFeature \<Rightarrow> int) \<Rightarrow> int \<Rightarrow> exn + (ForecastFeature \<times> log_record list)" where
  "ForecastFeature_from_pb wire forecast_feature =
     (if \<not> list_ex (\<lambda>t. wire t = forecast_feature) members
      then Inr (UNSPECIFIED, [Unknown_forecast_feature forecast_feature])
      else bind_exn (ForecastFeature_call wire forecast_feature) (\<lambda>t. Inr (t, [])))"

text \<open>
  The numbering used in examples: the position of the member in the enum. Any injective
  numbering serves.
\<close>

fun wire_example :: "ForecastFeature \<Rightarrow> int" where
  "wire_example UNSPECIFIED = 0"
| "wire_example TEMPERATURE_2_METRE = 1"
| "wire_example U_WIND_COMPONENT_100_METRE = 2"
| "wire_example V_WIND_COMPONENT_100_METRE = 3"
| "wire_example U_WIND_COMPONENT_10_METRE = 4"
| "wire_example V_WIND_COMPONENT_10_METRE = 5"
| "wire_example SURFACE_SOLAR_RADIATION_DOWNWARDS = 6"
| "wire_example SURFACE_NET_SOLAR_RADIATION = 7"

subsection \<open>\<open>Location\<close>\<close>

text \<open>
  Floating-point fields (latitude, longitude, forecast values) are only copied and
  compared for equality by this module; they are modelled as real numbers, so a
  not-a-number coordinate or forecast value is outside the model.
\<close>

record Location =
  latitude :: real
  longitude :: real
  country_code :: string

text \<open>The protobuf message \<open>location_pb2.Location\<close>.\<close>

record Location_pb =
  pb_latitude :: real
  pb_longitude :: real
  pb_country_code :: string

definition Location_from_pb :: "Location_pb \<Rightarrow> Location" where
  "Location_from_pb loc =
     \<lparr>latitude = pb_latitude loc, longitude = pb_longitude loc,
      country_code = pb_country_code loc\<rparr>"

definition Location_to_pb :: "Location \<Rightarrow> Location_pb" where
  "Location_to_pb self =
     \<lparr>pb_latitude = latitude self, pb_longitude = longitude self,
      pb_country_code = country_code self\<rparr>"

subsection \<open>The forecast messages\<close>

text \<open>
  The fields the module reads of the protobuf messages. A forecast response holds the
  repeated field \<open>location_forecasts\<close>; each \<open>LocationForecast\<close> holds a location, a
  creation timestamp and the repeated field \<open>forecasts\<close>; each of those entries holds a
  validity timestamp and the repeated field \<open>features\<close>; each feature forecast holds
  the integer of the protobuf enum and the value (the field \<open>value\<close>, here \<open>value_of\<close>).
  The protobuf timestamp is a type parameter \<open>'ts\<close>, and its method \<open>ToDatetime\<close>, which
  belongs to the protobuf library, is a parameter \<open>ToDatetime :: 'ts \<Rightarrow> 'dt\<close>.
\<close>

record FeatureForecast =
  feature :: int
  value_of :: real

record 'ts LocationForecast_Forecasts =
  valid_at_ts :: 'ts
  features :: "FeatureForecast list"

record 'ts LocationForecast =
  location :: Location_pb
  creation_ts :: 'ts
  forecasts :: "'ts LocationForecast_Forecasts list"

subsection \<open>Arrays\<close>

text \<open>
  A three-dimensional \<open>float64\<close> array: its shape and its cells by index. \<open>NaN\<close> is
  the value \<open>np.nan\<close> that \<open>np.full\<close> fills the array with.
\<close>

datatype float64 = NaN | Float real

record ndarray =
  shape :: "nat \<times> nat \<times> nat"
  cells :: "nat \<times> nat \<times> nat \<Rightarrow> float64"

definition full :: "nat \<times> nat \<times> nat \<Rightarrow> float64 \<Rightarrow> ndarray" where
  "full shp fill_value = \<lparr>shape = shp, cells = (\<lambda>_. fill_value)\<rparr>"

text \<open>\<open>array[t, l, f] = v\<close> for indices that are never negative.\<close>

definition setitem :: "ndarray \<Rightarrow> nat \<times> nat \<times> nat \<Rightarrow> real \<Rightarrow> exn + ndarray" where
  "setitem array idx v =
     (case (shape array, idx) of
        ((n0, n1, n2), (t, l, f)) \<Rightarrow>
          if t < n0 \<and> l < n1 \<and> f < n2
          then Inr (array\<lparr>cells := (cells array)(idx := Float v)\<rparr>)
          else Inl IndexError)"

subsection \<open>\<open>Forecasts.to_ndarray_vlf\<close>\<close>

text \<open>
  A filter argument is \<open>None\<close> or a list. \<open>if xs:\<close> holds for a list that is not empty.
\<close>

fun truthy :: "'a list option \<Rightarrow> bool" where
  "truthy None = False"
| "truthy (Some xs) = (xs \<noteq> [])"

fun requested :: "'a list option \<Rightarrow> 'a list" where
  "requested None = []"
| "requested (Some xs) = xs"

text \<open>
  The inner loop of a filter, \<open>for index, entry in enumerate(template): if match: append;
  break\<close>: the index appended, if any. The comparison may raise (the one of features
  calls \<open>ForecastFeature.from_pb\<close>).
\<close>

fun scan :: "('a \<Rightarrow> exn + bool) \<Rightarrow> nat \<Rightarrow> 'a list \<Rightarrow> exn + nat option" where
  "scan matches index [] = Inr None"
| "scan matches index (entry # rest) =
     (case matches entry of
        Inl e \<Rightarrow> Inl e
      | Inr True \<Rightarrow> Inr (Some index)
      | Inr False \<Rightarrow> scan matches (index + 1) rest)"

text \<open>The outer loop, over the requested values, appending to the list of indexes.\<close>

fun resolve :: "('r \<Rightarrow> 'a \<Rightarrow> exn + bool) \<Rightarrow> 'a list \<Rightarrow> 'r list \<Rightarrow> nat list \<Rightarrow> exn + nat list" where
  "resolve matches template [] indexes = Inr indexes"
| "resolve matches template (req # reqs) indexes =
     (case scan (matches req) 0 template of
        Inl e \<Rightarrow> Inl e
      | Inr None \<Rightarrow> resolve matches template reqs indexes
      | Inr (Some index) \<Rightarrow> resolve matches template reqs (indexes @ [index]))"

text \<open>The three comparisons.\<close>

definition location_matches :: "Location \<Rightarrow> 'ts LocationForecast \<Rightarrow> exn + bool" where
  "location_matches loc location_forecast =
     Inr (loc = Location_from_pb (location location_forecast))"

definition validity_time_matches ::
  "('ts \<Rightarrow> 'dt) \<Rightarrow> 'dt \<Rightarrow> 'ts LocationForecast_Forecasts \<Rightarrow> exn + bool" where
  "validity_time_matches ToDatetime req_validity_time val_time =
     Inr (req_validity_time = ToDatetime (valid_at_ts val_time))"

text \<open>The log records of \<open>from_pb\<close> are not part of what \<open>to_ndarray_vlf\<close> returns or prints.\<close>

definition feature_matches ::
  "(ForecastFeature \<Rightarrow> int) \<Rightarrow> ForecastFeature \<Rightarrow> FeatureForecast \<Rightarrow> exn + bool" where
  "feature_matches wire req_feature ff =
     bind_exn (ForecastFeature_from_pb wire (feature ff)) (\<lambda>r. Inr (req_feature = fst r))"

text \<open>
  The three lists of indexes: \<open>if filter: ... else: list(range(n))\<close>, with \<open>n\<close> the
  length of the list the filter is matched against.
\<close>

definition location_indexes ::
  "'ts LocationForecast list \<Rightarrow> Location list option \<Rightarrow> exn + nat list" where
  "location_indexes location_forecasts locations =
     (if truthy locations
      then resolve location_matches location_forecasts (requested locations) []
      else Inr [0..<length location_forecasts])"

definition validity_times_indexes ::
  "('ts \<Rightarrow> 'dt) \<Rightarrow> 'ts LocationForecast_Forecasts list \<Rightarrow> 'dt list option \<Rightarrow> exn + nat list" where
  "validity_times_indexes ToDatetime forecasts0 validity_times =
     (if truthy validity_times
      then resolve (validity_time_matches ToDatetime) forecasts0 (requested validity_times) []
      else Inr [0..<length forecasts0])"

definition feature_indexes ::
  "(ForecastFeature \<Rightarrow> int) \<Rightarrow> FeatureForecast list \<Rightarrow> ForecastFeature list option \<Rightarrow>
   exn + nat list" where
  "feature_indexes wire features0 features' =
     (if truthy features'
      then resolve (feature_matches wire) features0 (requested features') []
      else Inr [0..<length features0])"

text \<open>
  The expression
  \<open>location_forecasts[l_index].forecasts[t_index].features[f_index].value\<close>.
\<close>

definition source_value :: "'ts LocationForecast list \<Rightarrow> nat \<Rightarrow> nat \<Rightarrow> nat \<Rightarrow> exn + real" where
  "source_value location_forecasts l_index t_index f_index =
     bind_exn (getitem location_forecasts l_index) (\<lambda>lf.
     bind_exn (getitem (forecasts lf) t_index) (\<lambda>fc.
     bind_exn (getitem (features fc) f_index) (\<lambda>ff.
     Inr (value_of ff))))"

text \<open>
  The three nested loops that populate the array. Each loop walks a list of source
  indexes and counts the array index up from 0 beside it.
\<close>

fun populate_features ::
  "'ts LocationForecast list \<Rightarrow> nat \<Rightarrow> nat \<Rightarrow> nat list \<Rightarrow> nat \<Rightarrow> nat \<Rightarrow> nat \<Rightarrow> ndarray \<Rightarrow>
   exn + ndarray" where
  "populate_features lfs l_index t_index [] array_t_index array_l_index array_f_index array =
     Inr array"
| "populate_features lfs l_index t_index (f_index # rest) array_t_index array_l_index
     array_f_index array =
     (case source_value lfs l_index t_index f_index of
        Inl e \<Rightarrow> Inl e
      | Inr v \<Rightarrow>
          (case setitem array (array_t_index, array_l_index, array_f_index) v of
             Inl e \<Rightarrow> Inl e
           | Inr array' \<Rightarrow>
               populate_features lfs l_index t_index rest array_t_index array_l_index
                 (array_f_index + 1) array'))"

fun populate_times ::
  "'ts LocationForecast list \<Rightarrow> nat \<Rightarrow> nat list \<Rightarrow> nat list \<Rightarrow> nat \<Rightarrow> nat \<Rightarrow> ndarray \<Rightarrow>
   exn + ndarray" where
  "populate_times lfs l_index [] f_indexes array_t_index array_l_index array = Inr array"
| "populate_times lfs l_index (t_index # rest) f_indexes array_t_index array_l_index array =
     (case populate_features lfs l_index t_index f_indexes array_t_index array_l_index 0 array of
        Inl e \<Rightarrow> Inl e
      | Inr array' \<Rightarrow>
          populate_times lfs l_index rest f_indexes (array_t_index + 1) array_l_index array')"

fun populate_locations ::
  "'ts LocationForecast list \<Rightarrow> nat list \<Rightarrow> nat list \<Rightarrow> nat list \<Rightarrow> nat \<Rightarrow> ndarray \<Rightarrow>
   exn + ndarray" where
  "populate_locations lfs [] t_indexes f_indexes array_l_index array = Inr array"
| "populate_locations lfs (l_index # rest) t_indexes f_indexes array_l_index array =
     (case populate_times lfs l_index t_indexes f_indexes 0 array_l_index array of
        Inl e \<Rightarrow> Inl e
      | Inr array' \<Rightarrow>
          populate_locations lfs rest t_indexes f_indexes (array_l_index + 1) array')"

text \<open>The lines that the shape check prints, with the values they format.\<close>

datatype printed =
  Warning_validity_times nat "nat list"
    \<comment> \<open>\<open>array.shape[0]\<close> and \<open>validity_times_indexes\<close>\<close>
  | Warning_location nat "nat list"
    \<comment> \<open>\<open>array.shape[1]\<close> and \<open>location_indexes\<close>\<close>
  | Warning_features nat "nat list"
    \<comment> \<open>\<open>array.shape[2]\<close> and \<open>feature_indexes\<close>\<close>

definition shape_check ::
  "ndarray \<Rightarrow> 'dt list option \<Rightarrow> Location list option \<Rightarrow> ForecastFeature list option \<Rightarrow>
   nat list \<Rightarrow> nat list \<Rightarrow> nat list \<Rightarrow> printed list" where
  "shape_check array validity_times locations features' t_indexes l_indexes f_indexes =
     (case shape array of
        (n0, n1, n2) \<Rightarrow>
          (if validity_times \<noteq> None \<and> n0 \<noteq> length (requested validity_times)
           then [Warning_validity_times n0 t_indexes] else []) @
          (if locations \<noteq> None \<and> n1 \<noteq> length l_indexes
           then [Warning_location n1 l_indexes] else []) @
          (if features' \<noteq> None \<and> n2 \<noteq> length f_indexes
           then [Warning_features n2 f_indexes] else []))"

text \<open>The body of the \<open>try\<close> statement: the array and the lines printed.\<close>

definition to_ndarray_vlf_try ::
  "('ts \<Rightarrow> 'dt) \<Rightarrow> (ForecastFeature \<Rightarrow> int) \<Rightarrow> 'ts LocationForecast list \<Rightarrow>
   'dt list option \<Rightarrow> Location list option \<Rightarrow> ForecastFeature list option \<Rightarrow>
   exn + (ndarray \<times> printed list)" where
  "to_ndarray_vlf_try ToDatetime wire location_forecasts validity_times locations features' =
     bind_exn (getitem location_forecasts 0) (\<lambda>lf0.
     bind_exn (getitem (forecasts lf0) 0) (\<lambda>fc0.
     bind_exn (location_indexes location_forecasts locations) (\<lambda>l_indexes.
     bind_exn (validity_times_indexes ToDatetime (forecasts lf0) validity_times) (\<lambda>t_indexes.
     bind_exn (feature_indexes wire (features fc0) features') (\<lambda>f_indexes.
     bind_exn
       (populate_locations location_forecasts l_indexes t_indexes f_indexes 0
          (full (length t_indexes, length l_indexes, length f_indexes) NaN)) (\<lambda>array.
     Inr (array,
          shape_check array validity_times locations features' t_indexes l_indexes
            f_indexes)))))))"

definition to_ndarray_vlf ::
  "('ts \<Rightarrow> 'dt) \<Rightarrow> (ForecastFeature \<Rightarrow> int) \<Rightarrow> 'ts LocationForecast list \<Rightarrow>
   'dt list option \<Rightarrow> Location list option \<Rightarrow> ForecastFeature list option \<Rightarrow>
   exn + (ndarray \<times> printed list)" where
  "to_ndarray_vlf ToDatetime wire location_forecasts validity_times locations features' =
     (if location_forecasts = []
      then Inl (ValueError ''Forecast data is missing or invalid.'')
      else
        (case to_ndarray_vlf_try ToDatetime wire location_forecasts validity_times locations
                features' of
           Inl e \<Rightarrow> Inl (RuntimeError ''Error processing forecast data'' e)
         | Inr r \<Rightarrow> Inr r))"

subsection \<open>\<open>flatten\<close> and \<open>HistoricalForecasts.flatten\<close>\<close>

text \<open>
  A row of the result: creation time, latitude, longitude, validity time, feature and
  value. The array that \<open>np.array(data)\<close> builds is modelled by the list of its rows.
\<close>

type_synonym 'dt row = "'dt \<times> real \<times> real \<times> 'dt \<times> ForecastFeature \<times> real"

fun flatten_features ::
  "('ts \<Rightarrow> 'dt) \<Rightarrow> (ForecastFeature \<Rightarrow> int) \<Rightarrow> 'ts LocationForecast \<Rightarrow>
   'ts LocationForecast_Forecasts \<Rightarrow> FeatureForecast list \<Rightarrow> 'dt row list \<Rightarrow> exn + 'dt row list" where
  "flatten_features ToDatetime wire location_forecast fc [] data = Inr data"
| "flatten_features ToDatetime wire location_forecast fc (feature_forecast # rest) data =
     (case ForecastFeature_call wire (feature feature_forecast) of
        Inl e \<Rightarrow> Inl e
      | Inr ft \<Rightarrow>
          flatten_features ToDatetime wire location_forecast fc rest
            (data @
             [(ToDatetime (creation_ts location_forecast),
               pb_latitude (location location_forecast),
               pb_longitude (location location_forecast),
               ToDatetime (valid_at_ts fc),
               ft,
               value_of feature_forecast)]))"

fun flatten_forecasts ::
  "('ts \<Rightarrow> 'dt) \<Rightarrow> (ForecastFeature \<Rightarrow> int) \<Rightarrow> 'ts LocationForecast \<Rightarrow>
   'ts LocationForecast_Forecasts list \<Rightarrow> 'dt row list \<Rightarrow> exn + 'dt row list" where
  "flatten_forecasts ToDatetime wire location_forecast [] data = Inr data"
| "flatten_forecasts ToDatetime wire location_forecast (fc # rest) data =
     (case flatten_features ToDatetime wire location_forecast fc (features fc) data of
        Inl e \<Rightarrow> Inl e
      | Inr data' \<Rightarrow> flatten_forecasts ToDatetime wire location_forecast rest data')"

fun flatten_locations ::
  "('ts \<Rightarrow> 'dt) \<Rightarrow> (ForecastFeature \<Rightarrow> int) \<Rightarrow> 'ts LocationForecast list \<Rightarrow> 'dt row list \<Rightarrow>
   exn + 'dt row list" where
  "flatten_locations ToDatetime wire [] data = Inr data"
| "flatten_locations ToDatetime wire (location_forecast # rest) data =
     (case flatten_forecasts ToDatetime wire location_forecast (forecasts location_forecast)
             data of
        Inl e \<Rightarrow> Inl e
      | Inr data' \<Rightarrow> flatten_locations ToDatetime wire rest data')"

definition flatten ::
  "('ts \<Rightarrow> 'dt) \<Rightarrow> (ForecastFeature \<Rightarrow> int) \<Rightarrow> 'ts LocationForecast list \<Rightarrow> exn + 'dt row list" where
  "flatten ToDatetime wire location_forecasts =
     flatten_locations ToDatetime wire location_forecasts []"

definition HistoricalForecasts_flatten ::
  "('ts \<Rightarrow> 'dt) \<Rightarrow> (ForecastFeature \<Rightarrow> int) \<Rightarrow> 'ts LocationForecast list \<Rightarrow> exn + 'dt row list" where
  "HistoricalForecasts_flatten ToDatetime wire location_forecasts =
     (if location_forecasts = []
      then Inl (ValueError ''Forecast data is missing or invalid.'')
      else flatten ToDatetime wire location_forecasts)"

subsection \<open>Notions used to state the properties\<close>

text \<open>
  \<open>present lfs l t f\<close>: the payload has a feature entry at location \<open>l\<close>, validity
  time \<open>t\<close> and feature position \<open>f\<close>; \<open>stored lfs l t f\<close> is the value of that entry.
\<close>

definition present :: "'ts LocationForecast list \<Rightarrow> nat \<Rightarrow> nat \<Rightarrow> nat \<Rightarrow> bool" where
  "present lfs l t f =
     (l < length lfs \<and> t < length (forecasts (lfs ! l)) \<and>
      f < length (features (forecasts (lfs ! l) ! t)))"

definition stored :: "'ts LocationForecast list \<Rightarrow> nat \<Rightarrow> nat \<Rightarrow> nat \<Rightarrow> real" where
  "stored lfs l t f = value_of (features (forecasts (lfs ! l) ! t) ! f)"


text \<open>The member that \<open>ForecastFeature.from_pb\<close> returns for an integer.\<close>

definition mapped_feature :: "(ForecastFeature \<Rightarrow> int) \<Rightarrow> int \<Rightarrow> ForecastFeature" where
  "mapped_feature wire v =
     (case ForecastFeature_from_pb wire v of Inl e \<Rightarrow> UNSPECIFIED | Inr r \<Rightarrow> fst r)"

text \<open>
  A payload is uniform when every location has the validity times of the first location,
  in the same order, and every entry has the features of the first entry of the first
  location, in the same order.
\<close>

definition uniform :: "'ts LocationForecast list \<Rightarrow> bool" where
  "uniform lfs =
     list_all (\<lambda>lf.
       map valid_at_ts (forecasts lf) = map valid_at_ts (forecasts (hd lfs)) \<and>
       list_all (\<lambda>fc. map feature (features fc) = map feature (features (hd (forecasts (hd lfs)))))
         (forecasts lf)) lfs"

text \<open>Example payloads. Timestamps are integers and \<open>ToDatetime\<close> is the identity.\<close>

definition loc_A :: Location_pb where
  "loc_A = \<lparr>pb_latitude = 52, pb_longitude = 13, pb_country_code = ''DE''\<rparr>"

definition loc_B :: Location_pb where
  "loc_B = \<lparr>pb_latitude = 48, pb_longitude = 11, pb_country_code = ''DE''\<rparr>"

definition entry :: "int \<Rightarrow> real \<Rightarrow> FeatureForecast" where
  "entry code v = \<lparr>feature = code, value_of = v\<rparr>"

text \<open>
  Two locations, three validity times, two features (temperature and solar radiation),
  every cell present, every value different.
\<close>

definition example_forecasts :: "real \<Rightarrow> int LocationForecast_Forecasts list" where
  "example_forecasts b =
     [\<lparr>valid_at_ts = 1000, features = [entry 1 b, entry 6 (b + 1)]\<rparr>,
      \<lparr>valid_at_ts = 2000, features = [entry 1 (b + 10), entry 6 (b + 11)]\<rparr>,
      \<lparr>valid_at_ts = 3000, features = [entry 1 (b + 20), entry 6 (b + 21)]\<rparr>]"

definition example_payload :: "int LocationForecast list" where
  "example_payload =
     [\<lparr>location = loc_A, creation_ts = 500, forecasts = example_forecasts 0\<rparr>,
      \<lparr>location = loc_B, creation_ts = 600, forecasts = example_forecasts 100\<rparr>]"

text \<open>One location without forecasts.\<close>

definition no_forecasts_payload :: "int LocationForecast list" where
  "no_forecasts_payload = [\<lparr>location = loc_A, creation_ts = 500, forecasts = []\<rparr>]"

text \<open>
  The second location lacks the second feature at its only validity time.
\<close>

definition sparse_payload :: "int LocationForecast list" where
  "sparse_payload =
     [\<lparr>location = loc_A, creation_ts = 500,
       forecasts = [\<lparr>valid_at_ts = 1000, features = [entry 1 1, entry 6 2]\<rparr>]\<rparr>,
      \<lparr>location = loc_B, creation_ts = 600,
       forecasts = [\<lparr>valid_at_ts = 1000, features = [entry 1 3]\<rparr>]\<rparr>]"

text \<open>A location that no example payload holds.\<close>

definition loc_X :: Location where
  "loc_X = \<lparr>latitude = 0, longitude = 0, country_code = ''XX''\<rparr>"

text \<open>
  The row that an entry gives, with the integer of the feature in place of the member:
  what \<open>flatten\<close> reads from the payload before it looks the member up.
\<close>

definition entry_row ::
  "('ts \<Rightarrow> 'dt) \<Rightarrow> 'ts LocationForecast \<Rightarrow> 'ts LocationForecast_Forecasts \<Rightarrow> FeatureForecast \<Rightarrow>
   'dt \<times> real \<times> real \<times> 'dt \<times> int \<times> real" where
  "entry_row ToDatetime lf fc ff =
     (ToDatetime (creation_ts lf), pb_latitude (location lf), pb_longitude (location lf),
      ToDatetime (valid_at_ts fc), feature ff, value_of ff)"

text \<open>The entries of a payload in iteration order, as such rows.\<close>

definition entry_rows ::
  "('ts \<Rightarrow> 'dt) \<Rightarrow> 'ts LocationForecast list \<Rightarrow> ('dt \<times> real \<times> real \<times> 'dt \<times> int \<times> real) list" where
  "entry_rows ToDatetime lfs =
     concat (map (\<lambda>lf. concat (map (\<lambda>fc. map (entry_row ToDatetime lf fc) (features fc))
       (forecasts lf))) lfs)"

text \<open>A row of the result with the member replaced by its integer.\<close>

definition wire_row ::
  "(ForecastFeature \<Rightarrow> int) \<Rightarrow> 'dt row \<Rightarrow> 'dt \<times> real \<times> real \<times> 'dt \<times> int \<times> real" where
  "wire_row wire r =
     (case r of (created, lat, lon, valid, ft, v) \<Rightarrow> (created, lat, lon, valid, wire ft, v))"

text \<open>One location whose second feature entry has an integer that no member has.\<close>

definition unknown_code_payload :: "int LocationForecast list" where
  "unknown_code_payload =
     [\<lparr>location = loc_A, creation_ts = 500,
       forecasts = [\<lparr>valid_at_ts = 1000, features = [entry 1 1, entry 99 2]\<rparr>]\<rparr>]"


section \<open>Properties\<close>

subsection \<open>The enum lookup\<close>

lemma set_members: "set members = UNIV"
proof -
  have "t \<in> set members" for t
    by (cases t) (simp_all add: members_def)
  then show ?thesis by auto
qed

lemma inj_wire_example: "inj wire_example"
proof (rule injI)
  fix a b
  assume "wire_example a = wire_example b"
  then show "a = b"
    by (cases a; cases b; simp)
qed

lemma ForecastFeature_call_Inr_iff:
  "(\<exists>t. ForecastFeature_call wire v = Inr t) \<longleftrightarrow> (\<exists>m. wire m = v)"
proof -
  have "find (\<lambda>t. wire t = v) members = None \<longleftrightarrow> (\<forall>m. wire m \<noteq> v)"
    by (simp add: find_None_iff set_members)
  then show ?thesis
    by (auto simp: ForecastFeature_call_def split: option.splits)
qed

lemma ForecastFeature_call_wire:
  "ForecastFeature_call wire v = Inr t \<Longrightarrow> wire t = v"
  by (auto simp: ForecastFeature_call_def find_Some_iff split: option.splits)

lemma ForecastFeature_call_unknown:
  "(\<forall>m. wire m \<noteq> v) \<Longrightarrow> ForecastFeature_call wire v = Inl (NotAValidForecastFeature v)"
  by (simp add: ForecastFeature_call_def find_None_iff[THEN iffD2] set_members)

lemma ForecastFeature_from_pb_cases:
  "ForecastFeature_from_pb wire v =
     (if \<exists>m. wire m = v
      then (case ForecastFeature_call wire v of Inl e \<Rightarrow> Inl e | Inr t \<Rightarrow> Inr (t, []))
      else Inr (UNSPECIFIED, [Unknown_forecast_feature v]))"
  by (simp add: ForecastFeature_from_pb_def list_ex_iff set_members bind_exn_def)

subsection \<open>The loops of \<open>to_ndarray_vlf\<close>\<close>

lemma source_value_eq:
  "source_value lfs l t f = (if present lfs l t f then Inr (stored lfs l t f) else Inl IndexError)"
  by (simp add: source_value_def bind_exn_def getitem_def present_def stored_def)

lemma setitem_eq:
  "shape a = (n0, n1, n2) \<Longrightarrow>
   setitem a (t, l, f) v =
     (if t < n0 \<and> l < n1 \<and> f < n2 then Inr (a\<lparr>cells := (cells a)((t, l, f) := Float v)\<rparr>)
      else Inl IndexError)"
  by (simp add: setitem_def)

lemma setitem_Inl: "setitem a idx v = Inl e \<Longrightarrow> e = IndexError"
  by (auto simp: setitem_def split: prod.splits if_splits)

lemma populate_features_Inl:
  "populate_features lfs l t fs ti li fi a = Inl e \<Longrightarrow> e = IndexError"
proof (induction fs arbitrary: fi a)
  case Nil
  then show ?case by simp
next
  case (Cons f fs)
  then show ?case
    by (auto simp: source_value_eq split: if_splits sum.splits dest: setitem_Inl)
qed

lemma populate_features_absent:
  "\<exists>f\<in>set fs. \<not> present lfs l t f \<Longrightarrow> populate_features lfs l t fs ti li fi a = Inl IndexError"
proof (induction fs arbitrary: fi a)
  case Nil
  then show ?case by simp
next
  case (Cons f fs)
  show ?case
  proof (cases "present lfs l t f")
    case False
    then show ?thesis by (simp add: source_value_eq)
  next
    case True
    with Cons.prems have "\<exists>f\<in>set fs. \<not> present lfs l t f" by auto
    then have "populate_features lfs l t fs ti li (fi + 1) a' = Inl IndexError" for a'
      by (rule Cons.IH)
    then show ?thesis
      using True by (auto simp: source_value_eq split: sum.splits dest: setitem_Inl)
  qed
qed

lemma populate_features_Inr:
  assumes "\<forall>f\<in>set fs. present lfs l t f" and "shape a = (n0, n1, n2)"
    and "ti < n0" and "li < n1" and "fi + length fs \<le> n2"
  shows "\<exists>a'. populate_features lfs l t fs ti li fi a = Inr a' \<and> shape a' = shape a \<and>
           (\<forall>x y z. cells a' (x, y, z) =
              (if x = ti \<and> y = li \<and> fi \<le> z \<and> z < fi + length fs
               then Float (stored lfs l t (fs ! (z - fi))) else cells a (x, y, z)))"
  using assms
proof (induction fs arbitrary: fi a)
  case Nil
  then show ?case by auto
next
  case (Cons f fs)
  let ?a1 = "a\<lparr>cells := (cells a)((ti, li, fi) := Float (stored lfs l t f))\<rparr>"
  have step: "populate_features lfs l t (f # fs) ti li fi a =
                populate_features lfs l t fs ti li (fi + 1) ?a1"
    using Cons.prems by (simp add: source_value_eq setitem_eq)
  have "\<exists>a'. populate_features lfs l t fs ti li (fi + 1) ?a1 = Inr a' \<and> shape a' = shape ?a1 \<and>
           (\<forall>x y z. cells a' (x, y, z) =
              (if x = ti \<and> y = li \<and> fi + 1 \<le> z \<and> z < fi + 1 + length fs
               then Float (stored lfs l t (fs ! (z - (fi + 1)))) else cells ?a1 (x, y, z)))"
    using Cons.prems by (intro Cons.IH) auto
  then obtain a' where a': "populate_features lfs l t fs ti li (fi + 1) ?a1 = Inr a'"
      "shape a' = shape ?a1"
      "\<And>x y z. cells a' (x, y, z) =
              (if x = ti \<and> y = li \<and> fi + 1 \<le> z \<and> z < fi + 1 + length fs
               then Float (stored lfs l t (fs ! (z - (fi + 1)))) else cells ?a1 (x, y, z))"
    by blast
  have "cells a' (x, y, z) =
              (if x = ti \<and> y = li \<and> fi \<le> z \<and> z < fi + length (f # fs)
               then Float (stored lfs l t ((f # fs) ! (z - fi))) else cells a (x, y, z))" for x y z
    unfolding a'(3) by (auto simp: nth_Cons' le_Suc_eq)
  with a'(1,2) step show ?case by simp
qed

lemma populate_times_Inl:
  "populate_times lfs l ts fs ti li a = Inl e \<Longrightarrow> e = IndexError"
proof (induction ts arbitrary: ti a)
  case Nil
  then show ?case by simp
next
  case (Cons t ts)
  then show ?case
    by (auto split: sum.splits dest: populate_features_Inl)
qed

lemma populate_times_absent:
  "\<exists>t\<in>set ts. \<exists>f\<in>set fs. \<not> present lfs l t f \<Longrightarrow>
   populate_times lfs l ts fs ti li a = Inl IndexError"
proof (induction ts arbitrary: ti a)
  case Nil
  then show ?case by simp
next
  case (Cons t ts)
  show ?case
  proof (cases "\<exists>f\<in>set fs. \<not> present lfs l t f")
    case True
    then show ?thesis by (simp add: populate_features_absent)
  next
    case False
    with Cons.prems have "\<exists>t\<in>set ts. \<exists>f\<in>set fs. \<not> present lfs l t f" by auto
    then have "populate_times lfs l ts fs (ti + 1) li a' = Inl IndexError" for a'
      by (rule Cons.IH)
    then show ?thesis
      by (auto split: sum.splits dest: populate_features_Inl)
  qed
qed

lemma populate_times_Inr:
  assumes "\<forall>t\<in>set ts. \<forall>f\<in>set fs. present lfs l t f" and "shape a = (n0, n1, n2)"
    and "ti + length ts \<le> n0" and "li < n1" and "length fs \<le> n2"
  shows "\<exists>a'. populate_times lfs l ts fs ti li a = Inr a' \<and> shape a' = shape a \<and>
           (\<forall>x y z. cells a' (x, y, z) =
              (if y = li \<and> ti \<le> x \<and> x < ti + length ts \<and> z < length fs
               then Float (stored lfs l (ts ! (x - ti)) (fs ! z)) else cells a (x, y, z)))"
  using assms
proof (induction ts arbitrary: ti a)
  case Nil
  then show ?case by auto
next
  case (Cons t ts)
  have "\<exists>a1. populate_features lfs l t fs ti li 0 a = Inr a1 \<and> shape a1 = shape a \<and>
           (\<forall>x y z. cells a1 (x, y, z) =
              (if x = ti \<and> y = li \<and> 0 \<le> z \<and> z < 0 + length fs
               then Float (stored lfs l t (fs ! (z - 0))) else cells a (x, y, z)))"
    using Cons.prems by (intro populate_features_Inr[where ?n0.0 = n0 and ?n1.0 = n1 and ?n2.0 = n2]) auto
  then obtain a1 where a1: "populate_features lfs l t fs ti li 0 a = Inr a1" "shape a1 = shape a"
      "\<And>x y z. cells a1 (x, y, z) =
              (if x = ti \<and> y = li \<and> z < length fs
               then Float (stored lfs l t (fs ! z)) else cells a (x, y, z))"
    by auto
  have "\<exists>a'. populate_times lfs l ts fs (ti + 1) li a1 = Inr a' \<and> shape a' = shape a1 \<and>
           (\<forall>x y z. cells a' (x, y, z) =
              (if y = li \<and> ti + 1 \<le> x \<and> x < ti + 1 + length ts \<and> z < length fs
               then Float (stored lfs l (ts ! (x - (ti + 1))) (fs ! z)) else cells a1 (x, y, z)))"
    using Cons.prems a1(2) by (intro Cons.IH) auto
  then obtain a' where a': "populate_times lfs l ts fs (ti + 1) li a1 = Inr a'"
      "shape a' = shape a1"
      "\<And>x y z. cells a' (x, y, z) =
              (if y = li \<and> ti + 1 \<le> x \<and> x < ti + 1 + length ts \<and> z < length fs
               then Float (stored lfs l (ts ! (x - (ti + 1))) (fs ! z)) else cells a1 (x, y, z))"
    by blast
  have "cells a' (x, y, z) =
              (if y = li \<and> ti \<le> x \<and> x < ti + length (t # ts) \<and> z < length fs
               then Float (stored lfs l ((t # ts) ! (x - ti)) (fs ! z)) else cells a (x, y, z))"
    for x y z
    unfolding a'(3) a1(3) by (auto simp: nth_Cons' le_Suc_eq)
  with a'(1,2) a1(1,2) show ?case by simp
qed

lemma populate_locations_Inl:
  "populate_locations lfs ls ts fs li a = Inl e \<Longrightarrow> e = IndexError"
proof (induction ls arbitrary: li a)
  case Nil
  then show ?case by simp
next
  case (Cons l ls)
  then show ?case
    by (auto split: sum.splits dest: populate_times_Inl)
qed

lemma populate_locations_absent:
  "\<exists>l\<in>set ls. \<exists>t\<in>set ts. \<exists>f\<in>set fs. \<not> present lfs l t f \<Longrightarrow>
   populate_locations lfs ls ts fs li a = Inl IndexError"
proof (induction ls arbitrary: li a)
  case Nil
  then show ?case by simp
next
  case (Cons l ls)
  show ?case
  proof (cases "\<exists>t\<in>set ts. \<exists>f\<in>set fs. \<not> present lfs l t f")
    case True
    then show ?thesis by (simp add: populate_times_absent)
  next
    case False
    with Cons.prems have "\<exists>l\<in>set ls. \<exists>t\<in>set ts. \<exists>f\<in>set fs. \<not> present lfs l t f" by auto
    then have "populate_locations lfs ls ts fs (li + 1) a' = Inl IndexError" for a'
      by (rule Cons.IH)
    then show ?thesis
      by (auto split: sum.splits dest: populate_times_Inl)
  qed
qed

lemma populate_locations_Inr:
  assumes "\<forall>l\<in>set ls. \<forall>t\<in>set ts. \<forall>f\<in>set fs. present lfs l t f" and "shape a = (n0, n1, n2)"
    and "length ts \<le> n0" and "li + length ls \<le> n1" and "length fs \<le> n2"
  shows "\<exists>a'. populate_locations lfs ls ts fs li a = Inr a' \<and> shape a' = shape a \<and>
           (\<forall>x y z. cells a' (x, y, z) =
              (if li \<le> y \<and> y < li + length ls \<and> x < length ts \<and> z < length fs
               then Float (stored lfs (ls ! (y - li)) (ts ! x) (fs ! z)) else cells a (x, y, z)))"
  using assms
proof (induction ls arbitrary: li a)
  case Nil
  then show ?case by auto
next
  case (Cons l ls)
  have "\<exists>a1. populate_times lfs l ts fs 0 li a = Inr a1 \<and> shape a1 = shape a \<and>
           (\<forall>x y z. cells a1 (x, y, z) =
              (if y = li \<and> 0 \<le> x \<and> x < 0 + length ts \<and> z < length fs
               then Float (stored lfs l (ts ! (x - 0)) (fs ! z)) else cells a (x, y, z)))"
    using Cons.prems by (intro populate_times_Inr[where ?n0.0 = n0 and ?n1.0 = n1 and ?n2.0 = n2]) auto
  then obtain a1 where a1: "populate_times lfs l ts fs 0 li a = Inr a1" "shape a1 = shape a"
      "\<And>x y z. cells a1 (x, y, z) =
              (if y = li \<and> x < length ts \<and> z < length fs
               then Float (stored lfs l (ts ! x) (fs ! z)) else cells a (x, y, z))"
    by auto
  have "\<exists>a'. populate_locations lfs ls ts fs (li + 1) a1 = Inr a' \<and> shape a' = shape a1 \<and>
           (\<forall>x y z. cells a' (x, y, z) =
              (if li + 1 \<le> y \<and> y < li + 1 + length ls \<and> x < length ts \<and> z < length fs
               then Float (stored lfs (ls ! (y - (li + 1))) (ts ! x) (fs ! z))
               else cells a1 (x, y, z)))"
    using Cons.prems a1(2) by (intro Cons.IH) auto
  then obtain a' where a': "populate_locations lfs ls ts fs (li + 1) a1 = Inr a'"
      "shape a' = shape a1"
      "\<And>x y z. cells a' (x, y, z) =
              (if li + 1 \<le> y \<and> y < li + 1 + length ls \<and> x < length ts \<and> z < length fs
               then Float (stored lfs (ls ! (y - (li + 1))) (ts ! x) (fs ! z))
               else cells a1 (x, y, z))"
    by blast
  have "cells a' (x, y, z) =
              (if li \<le> y \<and> y < li + length (l # ls) \<and> x < length ts \<and> z < length fs
               then Float (stored lfs ((l # ls) ! (y - li)) (ts ! x) (fs ! z))
               else cells a (x, y, z))"
    for x y z
    unfolding a'(3) a1(3) by (auto simp: nth_Cons' le_Suc_eq)
  with a'(1,2) a1(1,2) show ?case by simp
qed




lemma scan_total:
  assumes "\<And>x. m x = Inr (P x)"
  shows "scan m i xs =
           Inr (if \<exists>x\<in>set xs. P x then Some (i + length (takeWhile (\<lambda>x. \<not> P x) xs)) else None)"
  by (induction xs arbitrary: i) (auto simp: assms)

lemma resolve_total:
  assumes "\<And>r x. m r x = Inr (P r x)"
  shows "resolve m tpl reqs acc =
           Inr (acc @ map (\<lambda>r. length (takeWhile (\<lambda>x. \<not> P r x) tpl))
                        (filter (\<lambda>r. \<exists>x\<in>set tpl. P r x) reqs))"
proof (induction reqs arbitrary: acc)
  case Nil
  show ?case by simp
next
  case (Cons r reqs)
  have "scan (m r) 0 tpl =
          Inr (if \<exists>x\<in>set tpl. P r x then Some (0 + length (takeWhile (\<lambda>x. \<not> P r x) tpl)) else None)"
    by (rule scan_total) (rule assms)
  then show ?case
    by (simp add: Cons.IH)
qed


lemma ForecastFeature_from_pb_Inr:
  "\<exists>lg. ForecastFeature_from_pb wire v = Inr (mapped_feature wire v, lg)"
proof -
  obtain t lg where "ForecastFeature_from_pb wire v = Inr (t, lg)"
    by (cases "\<exists>m. wire m = v")
      (auto simp: ForecastFeature_from_pb_cases ForecastFeature_call_Inr_iff[symmetric])
  then show ?thesis
    by (simp add: mapped_feature_def)
qed

lemma feature_matches_eq:
  "feature_matches wire r ff = Inr (r = mapped_feature wire (feature ff))"
proof -
  obtain lg where "ForecastFeature_from_pb wire (feature ff) = Inr (mapped_feature wire (feature ff), lg)"
    using ForecastFeature_from_pb_Inr by blast
  then show ?thesis
    by (simp add: feature_matches_def bind_exn_def)
qed

lemma location_indexes_eq:
  "location_indexes lfs locs =
     Inr (if truthy locs
          then map (\<lambda>r. length (takeWhile (\<lambda>lf. r \<noteq> Location_from_pb (location lf)) lfs))
                 (filter (\<lambda>r. \<exists>lf\<in>set lfs. r = Location_from_pb (location lf)) (requested locs))
          else [0..<length lfs])"
  unfolding location_indexes_def
  using resolve_total[of location_matches "\<lambda>r lf. r = Location_from_pb (location lf)" lfs
      "requested locs" "[]"]
  by (simp add: location_matches_def)

lemma validity_times_indexes_eq:
  "validity_times_indexes ToDatetime fcs vts =
     Inr (if truthy vts
          then map (\<lambda>r. length (takeWhile (\<lambda>fc. r \<noteq> ToDatetime (valid_at_ts fc)) fcs))
                 (filter (\<lambda>r. \<exists>fc\<in>set fcs. r = ToDatetime (valid_at_ts fc)) (requested vts))
          else [0..<length fcs])"
  unfolding validity_times_indexes_def
  using resolve_total[of "validity_time_matches ToDatetime"
      "\<lambda>r fc. r = ToDatetime (valid_at_ts fc)" fcs "requested vts" "[]"]
  by (simp add: validity_time_matches_def)

lemma feature_indexes_eq:
  "feature_indexes wire ffs fts =
     Inr (if truthy fts
          then map (\<lambda>r. length (takeWhile (\<lambda>ff. r \<noteq> mapped_feature wire (feature ff)) ffs))
                 (filter (\<lambda>r. \<exists>ff\<in>set ffs. r = mapped_feature wire (feature ff)) (requested fts))
          else [0..<length ffs])"
  unfolding feature_indexes_def
  using resolve_total[of "feature_matches wire"
      "\<lambda>r ff. r = mapped_feature wire (feature ff)" ffs
      "requested fts" "[]"]
  by (simp add: feature_matches_eq)




lemma populate_full:
  "populate_locations lfs lxs txs fxs 0 (full (length txs, length lxs, length fxs) NaN) =
     (if \<forall>l\<in>set lxs. \<forall>t\<in>set txs. \<forall>f\<in>set fxs. present lfs l t f
      then Inr \<lparr>shape = (length txs, length lxs, length fxs),
                cells = (\<lambda>(x, y, z).
                  if x < length txs \<and> y < length lxs \<and> z < length fxs
                  then Float (stored lfs (lxs ! y) (txs ! x) (fxs ! z)) else NaN)\<rparr>
      else Inl IndexError)"
proof (cases "\<forall>l\<in>set lxs. \<forall>t\<in>set txs. \<forall>f\<in>set fxs. present lfs l t f")
  case False
  then show ?thesis
    by (simp add: populate_locations_absent)
next
  case True
  let ?a = "full (length txs, length lxs, length fxs) NaN"
  have "\<exists>a'. populate_locations lfs lxs txs fxs 0 ?a = Inr a' \<and> shape a' = shape ?a \<and>
           (\<forall>x y z. cells a' (x, y, z) =
              (if 0 \<le> y \<and> y < 0 + length lxs \<and> x < length txs \<and> z < length fxs
               then Float (stored lfs (lxs ! (y - 0)) (txs ! x) (fxs ! z)) else cells ?a (x, y, z)))"
    using True
    by (intro populate_locations_Inr[where ?n0.0 = "length txs" and ?n1.0 = "length lxs"
          and ?n2.0 = "length fxs"]) (auto simp: full_def)
  then obtain a' where a': "populate_locations lfs lxs txs fxs 0 ?a = Inr a'"
      "shape a' = (length txs, length lxs, length fxs)"
      "\<And>x y z. cells a' (x, y, z) =
              (if x < length txs \<and> y < length lxs \<and> z < length fxs
               then Float (stored lfs (lxs ! y) (txs ! x) (fxs ! z)) else NaN)"
    by (auto simp: full_def)
  have "cells a' = (\<lambda>(x, y, z).
                  if x < length txs \<and> y < length lxs \<and> z < length fxs
                  then Float (stored lfs (lxs ! y) (txs ! x) (fxs ! z)) else NaN)"
    by (rule ext) (auto simp: a'(3))
  with a'(2) have "a' = \<lparr>shape = (length txs, length lxs, length fxs),
                cells = (\<lambda>(x, y, z).
                  if x < length txs \<and> y < length lxs \<and> z < length fxs
                  then Float (stored lfs (lxs ! y) (txs ! x) (fxs ! z)) else NaN)\<rparr>"
    by (cases a') simp
  with a'(1) True show ?thesis by simp
qed

lemma to_ndarray_vlf_try_eq:
  assumes "lfs \<noteq> []" and "forecasts (hd lfs) \<noteq> []"
    and "location_indexes lfs locs = Inr lxs"
    and "validity_times_indexes ToDatetime (forecasts (hd lfs)) vts = Inr txs"
    and "feature_indexes wire (features (hd (forecasts (hd lfs)))) fts = Inr fxs"
  shows "to_ndarray_vlf_try ToDatetime wire lfs vts locs fts =
     (if \<forall>l\<in>set lxs. \<forall>t\<in>set txs. \<forall>f\<in>set fxs. present lfs l t f
      then Inr (\<lparr>shape = (length txs, length lxs, length fxs),
                 cells = (\<lambda>(x, y, z).
                   if x < length txs \<and> y < length lxs \<and> z < length fxs
                   then Float (stored lfs (lxs ! y) (txs ! x) (fxs ! z)) else NaN)\<rparr>,
                if vts \<noteq> None \<and> length txs \<noteq> length (requested vts)
                then [Warning_validity_times (length txs) txs] else [])
      else Inl IndexError)"
proof -
  have 0: "getitem lfs 0 = Inr (hd lfs)" "getitem (forecasts (hd lfs)) 0 = Inr (hd (forecasts (hd lfs)))"
    using assms(1,2) by (simp_all add: getitem_def hd_conv_nth)
  show ?thesis
    unfolding to_ndarray_vlf_try_def
    by (simp add: 0 bind_exn_def assms(3-5) populate_full shape_check_def)
qed

lemma to_ndarray_vlf_try_no_forecasts:
  assumes "lfs \<noteq> []" and "forecasts (hd lfs) = []"
  shows "to_ndarray_vlf_try ToDatetime wire lfs vts locs fts = Inl IndexError"
proof -
  have "getitem lfs 0 = Inr (hd lfs)"
    using assms(1) by (simp add: getitem_def hd_conv_nth)
  then show ?thesis
    unfolding to_ndarray_vlf_try_def by (simp add: bind_exn_def getitem_def assms(2))
qed

subsection \<open>\<open>ForecastFeature.from_pb\<close>\<close>

text \<open>
  C9. \<open>ForecastFeature.from_pb\<close> returns for every integer and never raises. For the
  value of a member it returns a member with that value and logs nothing; with distinct
  member values that is the member itself. For an integer that is no member's value it
  returns \<open>UNSPECIFIED\<close> and writes one log record naming the integer.
\<close>

theorem from_pb_total:
  "\<exists>t lg. ForecastFeature_from_pb wire v = Inr (t, lg) \<and>
     (if \<exists>m. wire m = v
      then wire t = v \<and> lg = [] \<and> (\<forall>m. inj wire \<longrightarrow> wire m = v \<longrightarrow> t = m)
      else t = UNSPECIFIED \<and> lg = [Unknown_forecast_feature v])"
proof (cases "\<exists>m. wire m = v")
  case True
  then obtain t where t: "ForecastFeature_call wire v = Inr t"
    using ForecastFeature_call_Inr_iff by blast
  then have wt: "wire t = v"
    by (rule ForecastFeature_call_wire)
  have "ForecastFeature_from_pb wire v = Inr (t, [])"
    using True t by (simp add: ForecastFeature_from_pb_cases)
  moreover have "\<forall>m. inj wire \<longrightarrow> wire m = v \<longrightarrow> t = m"
    using wt by (auto dest: injD)
  ultimately show ?thesis
    using True wt by simp
next
  case False
  then show ?thesis by (simp add: ForecastFeature_from_pb_cases)
qed

theorem from_pb_total_witness:
  "ForecastFeature_from_pb wire_example 3 = Inr (V_WIND_COMPONENT_100_METRE, []) \<and>
   ForecastFeature_from_pb wire_example 99 = Inr (UNSPECIFIED, [Unknown_forecast_feature 99])"
proof -
  have known: "\<exists>m. wire_example m = 3"
    by (rule exI[of _ V_WIND_COMPONENT_100_METRE]) simp
  have unknown: "\<not> (\<exists>m. wire_example m = 99)"
  proof
    assume "\<exists>m. wire_example m = 99"
    then obtain m where "wire_example m = 99" ..
    then show False by (cases m) simp_all
  qed
  from from_pb_total[of wire_example 3] known inj_wire_example
  have "ForecastFeature_from_pb wire_example 3 = Inr (V_WIND_COMPONENT_100_METRE, [])"
    by (metis wire_example.simps(4))
  moreover from from_pb_total[of wire_example 99] unknown
  have "ForecastFeature_from_pb wire_example 99 = Inr (UNSPECIFIED, [Unknown_forecast_feature 99])"
    by auto
  ultimately show ?thesis by simp
qed

subsection \<open>The array without filters\<close>

lemma uniform_present:
  assumes "uniform lfs" and "l < length lfs" and "t < length (forecasts (hd lfs))"
    and "f < length (features (hd (forecasts (hd lfs))))"
  shows "present lfs l t f"
proof -
  have lf: "lfs ! l \<in> set lfs"
    using assms(2) by simp
  with assms(1) have "map valid_at_ts (forecasts (lfs ! l)) = map valid_at_ts (forecasts (hd lfs))"
    by (auto simp: uniform_def list_all_iff)
  then have "length (forecasts (lfs ! l)) = length (forecasts (hd lfs))"
    by (rule map_eq_imp_length_eq)
  with assms(3) have t: "t < length (forecasts (lfs ! l))"
    by simp
  then have "forecasts (lfs ! l) ! t \<in> set (forecasts (lfs ! l))"
    by simp
  with assms(1) lf have "map feature (features (forecasts (lfs ! l) ! t)) =
      map feature (features (hd (forecasts (hd lfs))))"
    by (auto simp: uniform_def list_all_iff)
  then have "length (features (forecasts (lfs ! l) ! t)) = length (features (hd (forecasts (hd lfs))))"
    by (rule map_eq_imp_length_eq)
  with assms(2,4) t show ?thesis
    by (simp add: present_def)
qed

text \<open>
  C1 (amended). For every payload with at least one location whose first location has
  at least one validity time, and which is uniform, \<open>to_ndarray_vlf\<close> without filters
  returns an array and prints nothing. The shape is \<open>(T, L, F)\<close>: the number of validity
  times of the first location, the number of locations, and the number of features of
  the first validity time of the first location. The cell at \<open>(t, l, f)\<close> holds the
  value stored at location \<open>l\<close>, validity time \<open>t\<close>, feature \<open>f\<close>, so no cell is
  left \<open>NaN\<close>.
\<close>

theorem to_ndarray_vlf_unfiltered:
  assumes "lfs \<noteq> []" and "forecasts (hd lfs) \<noteq> []" and "uniform lfs"
  shows "\<exists>a. to_ndarray_vlf ToDatetime wire lfs None None None = Inr (a, []) \<and>
           shape a = (length (forecasts (hd lfs)), length lfs,
                      length (features (hd (forecasts (hd lfs))))) \<and>
           (\<forall>t<length (forecasts (hd lfs)). \<forall>l<length lfs.
              \<forall>f<length (features (hd (forecasts (hd lfs)))).
                cells a (t, l, f) = Float (value_of (features (forecasts (lfs ! l) ! t) ! f)))"
proof -
  let ?T = "length (forecasts (hd lfs))" and ?L = "length lfs"
    and ?F = "length (features (hd (forecasts (hd lfs))))"
  have ix: "location_indexes lfs None = Inr [0..<?L]"
    "validity_times_indexes ToDatetime (forecasts (hd lfs)) None = Inr [0..<?T]"
    "feature_indexes wire (features (hd (forecasts (hd lfs)))) None = Inr [0..<?F]"
    by (simp_all add: location_indexes_eq validity_times_indexes_eq feature_indexes_eq)
  have all: "\<forall>l\<in>set [0..<?L]. \<forall>t\<in>set [0..<?T]. \<forall>f\<in>set [0..<?F]. present lfs l t f"
    using assms(3) by (auto intro: uniform_present)
  have "to_ndarray_vlf_try ToDatetime wire lfs None None None =
      Inr (\<lparr>shape = (?T, ?L, ?F),
            cells = (\<lambda>(x, y, z). if x < ?T \<and> y < ?L \<and> z < ?F
               then Float (stored lfs ([0..<?L] ! y) ([0..<?T] ! x) ([0..<?F] ! z)) else NaN)\<rparr>, [])"
    using to_ndarray_vlf_try_eq[OF assms(1,2) ix] all by simp
  then show ?thesis
    using assms(1) by (simp add: to_ndarray_vlf_def stored_def)
qed

theorem to_ndarray_vlf_unfiltered_witness:
  "\<exists>a. to_ndarray_vlf (\<lambda>ts. ts) wire_example example_payload None None None = Inr (a, []) \<and>
     shape a = (3, 2, 2) \<and>
     cells a (0, 0, 0) = Float 0 \<and> cells a (0, 0, 1) = Float 1 \<and>
     cells a (2, 0, 1) = Float 21 \<and> cells a (1, 1, 0) = Float 110 \<and>
     cells a (2, 1, 1) = Float 121"
proof -
  have ne: "example_payload \<noteq> []" "forecasts (hd example_payload) \<noteq> []"
    by (simp_all add: example_payload_def example_forecasts_def)
  have u: "uniform example_payload"
    by (simp add: uniform_def example_payload_def example_forecasts_def entry_def)
  have len: "length (forecasts (hd example_payload)) = 3" "length example_payload = 2"
    "length (features (hd (forecasts (hd example_payload)))) = 2"
    by (simp_all add: example_payload_def example_forecasts_def)
  from to_ndarray_vlf_unfiltered[OF ne u, of "\<lambda>ts. ts" wire_example]
  obtain a where a: "to_ndarray_vlf (\<lambda>ts. ts) wire_example example_payload None None None = Inr (a, [])"
    "shape a = (3, 2, 2)"
    "\<And>t l f. t < 3 \<Longrightarrow> l < 2 \<Longrightarrow> f < 2 \<Longrightarrow>
       cells a (t, l, f) = Float (value_of (features (forecasts (example_payload ! l) ! t) ! f))"
    unfolding len by blast
  have "cells a (0, 0, 0) = Float 0" "cells a (0, 0, 1) = Float 1"
    "cells a (2, 0, 1) = Float 21" "cells a (1, 1, 0) = Float 110"
    "cells a (2, 1, 1) = Float 121"
    by (simp_all add: a(3) example_payload_def example_forecasts_def entry_def)
  with a(1,2) show ?thesis by blast
qed

text \<open>
  The claim as stated, for every uniform payload with a location, fails when the first
  location has no validity time: \<open>location_forecasts[0].forecasts[0]\<close> raises
  \<open>IndexError\<close> inside the \<open>try\<close> statement, and the call raises \<open>RuntimeError\<close>.
\<close>

theorem no_forecasts_counterexample:
  "no_forecasts_payload \<noteq> [] \<and> uniform no_forecasts_payload \<and>
   to_ndarray_vlf (\<lambda>ts. ts) wire_example no_forecasts_payload None None None =
     Inl (RuntimeError ''Error processing forecast data'' IndexError)"
proof -
  have "to_ndarray_vlf_try (\<lambda>ts. ts) wire_example no_forecasts_payload None None None = Inl IndexError"
    by (rule to_ndarray_vlf_try_no_forecasts) (simp_all add: no_forecasts_payload_def)
  then show ?thesis
    by (simp add: to_ndarray_vlf_def no_forecasts_payload_def uniform_def)
qed

subsection \<open>The array with filters\<close>

lemma indexes_Inr:
  "\<exists>lxs. location_indexes lfs locs = Inr lxs"
  "\<exists>txs. validity_times_indexes ToDatetime fcs vts = Inr txs"
  "\<exists>fxs. feature_indexes wire ffs fts = Inr fxs"
  by (simp_all add: location_indexes_eq validity_times_indexes_eq feature_indexes_eq)

lemma to_ndarray_vlf_try_Inl:
  assumes "lfs \<noteq> []" and "to_ndarray_vlf_try ToDatetime wire lfs vts locs fts = Inl e"
  shows "e = IndexError"
proof (cases "forecasts (hd lfs) = []")
  case True
  with assms show ?thesis
    by (simp add: to_ndarray_vlf_try_no_forecasts)
next
  case False
  obtain lxs txs fxs where ix: "location_indexes lfs locs = Inr lxs"
      "validity_times_indexes ToDatetime (forecasts (hd lfs)) vts = Inr txs"
      "feature_indexes wire (features (hd (forecasts (hd lfs)))) fts = Inr fxs"
    using indexes_Inr by metis
  show ?thesis
    using assms(2) unfolding to_ndarray_vlf_try_eq[OF assms(1) False ix]
    by (simp split: if_splits)
qed

lemma to_ndarray_vlf_eq:
  assumes "lfs \<noteq> []" and "forecasts (hd lfs) \<noteq> []"
    and "location_indexes lfs locs = Inr lxs"
    and "validity_times_indexes ToDatetime (forecasts (hd lfs)) vts = Inr txs"
    and "feature_indexes wire (features (hd (forecasts (hd lfs)))) fts = Inr fxs"
  shows "to_ndarray_vlf ToDatetime wire lfs vts locs fts =
     (if \<forall>l\<in>set lxs. \<forall>t\<in>set txs. \<forall>f\<in>set fxs. present lfs l t f
      then Inr (\<lparr>shape = (length txs, length lxs, length fxs),
                 cells = (\<lambda>(x, y, z).
                   if x < length txs \<and> y < length lxs \<and> z < length fxs
                   then Float (stored lfs (lxs ! y) (txs ! x) (fxs ! z)) else NaN)\<rparr>,
                if vts \<noteq> None \<and> length txs \<noteq> length (requested vts)
                then [Warning_validity_times (length txs) txs] else [])
      else Inl (RuntimeError ''Error processing forecast data'' IndexError))"
  using assms(1) by (simp add: to_ndarray_vlf_def to_ndarray_vlf_try_eq[OF assms])

lemma to_ndarray_vlf_no_forecasts:
  assumes "lfs \<noteq> []" and "forecasts (hd lfs) = []"
  shows "to_ndarray_vlf ToDatetime wire lfs vts locs fts =
           Inl (RuntimeError ''Error processing forecast data'' IndexError)"
  using assms(1) by (simp add: to_ndarray_vlf_def to_ndarray_vlf_try_no_forecasts[OF assms])

text \<open>Every cell of a returned array holds a value of the payload: none is left \<open>NaN\<close>.\<close>

lemma returned_cells_not_NaN:
  assumes "to_ndarray_vlf ToDatetime wire lfs vts locs fts = Inr (a, w)"
    and "shape a = (n0, n1, n2)" and "t < n0" and "l < n1" and "f < n2"
  shows "cells a (t, l, f) \<noteq> NaN"
proof -
  have ne: "lfs \<noteq> []"
    using assms(1) by (auto simp: to_ndarray_vlf_def)
  have fc: "forecasts (hd lfs) \<noteq> []"
    using assms(1) to_ndarray_vlf_no_forecasts[OF ne, of ToDatetime wire vts locs fts] by auto
  obtain lxs txs fxs where ix: "location_indexes lfs locs = Inr lxs"
      "validity_times_indexes ToDatetime (forecasts (hd lfs)) vts = Inr txs"
      "feature_indexes wire (features (hd (forecasts (hd lfs)))) fts = Inr fxs"
    using indexes_Inr by metis
  show ?thesis
    using assms unfolding to_ndarray_vlf_eq[OF ne fc ix]
    by (auto split: if_splits)
qed

text \<open>A selected cell that the payload lacks makes the call raise.\<close>

lemma absent_cell_raises:
  assumes "lfs \<noteq> []" and "forecasts (hd lfs) \<noteq> []"
    and "location_indexes lfs locs = Inr lxs"
    and "validity_times_indexes ToDatetime (forecasts (hd lfs)) vts = Inr txs"
    and "feature_indexes wire (features (hd (forecasts (hd lfs)))) fts = Inr fxs"
    and "l \<in> set lxs" and "t \<in> set txs" and "f \<in> set fxs" and "\<not> present lfs l t f"
  shows "to_ndarray_vlf ToDatetime wire lfs vts locs fts =
           Inl (RuntimeError ''Error processing forecast data'' IndexError)"
  unfolding to_ndarray_vlf_eq[OF assms(1-5)] using assms(6-9) by auto

text \<open>The lines about locations and features are never printed.\<close>

lemma printed_lines:
  assumes "to_ndarray_vlf ToDatetime wire lfs vts locs fts = Inr (a, w)"
  shows "Warning_location n ix \<notin> set w" and "Warning_features n ix \<notin> set w"
    and "w \<noteq> [] \<longleftrightarrow> vts \<noteq> None \<and> fst (shape a) \<noteq> length (requested vts)"
proof -
  have ne: "lfs \<noteq> []"
    using assms(1) by (auto simp: to_ndarray_vlf_def)
  have fc: "forecasts (hd lfs) \<noteq> []"
    using assms(1) to_ndarray_vlf_no_forecasts[OF ne, of ToDatetime wire vts locs fts] by auto
  obtain lxs txs fxs where ix: "location_indexes lfs locs = Inr lxs"
      "validity_times_indexes ToDatetime (forecasts (hd lfs)) vts = Inr txs"
      "feature_indexes wire (features (hd (forecasts (hd lfs)))) fts = Inr fxs"
    using indexes_Inr by metis
  show "Warning_location n ix \<notin> set w" and "Warning_features n ix \<notin> set w"
    and "w \<noteq> [] \<longleftrightarrow> vts \<noteq> None \<and> fst (shape a) \<noteq> length (requested vts)"
    using assms unfolding to_ndarray_vlf_eq[OF ne fc ix]
    by (auto split: if_splits)
qed

text \<open>
  C2. On the payload whose second location lacks the second feature, \<open>to_ndarray_vlf\<close>
  without filters does not return an array with a \<open>NaN\<close> cell: reading
  \<open>features[1]\<close> of the second location raises \<open>IndexError\<close>, and the call raises
  \<open>RuntimeError\<close>.
\<close>

theorem sparse_payload_raises:
  "to_ndarray_vlf (\<lambda>ts. ts) wire_example sparse_payload None None None =
     Inl (RuntimeError ''Error processing forecast data'' IndexError)"
proof -
  have ne: "sparse_payload \<noteq> []" "forecasts (hd sparse_payload) \<noteq> []"
    by (simp_all add: sparse_payload_def)
  have ix: "location_indexes sparse_payload None = Inr [0..<length sparse_payload]"
    "validity_times_indexes (\<lambda>ts. ts) (forecasts (hd sparse_payload)) None =
       Inr [0..<length (forecasts (hd sparse_payload))]"
    "feature_indexes wire_example (features (hd (forecasts (hd sparse_payload)))) None =
       Inr [0..<length (features (hd (forecasts (hd sparse_payload))))]"
    by (simp_all add: location_indexes_eq validity_times_indexes_eq feature_indexes_eq)
  have absent: "\<not> present sparse_payload 1 0 1"
    by (simp add: present_def sparse_payload_def)
  have sel: "1 \<in> set [0..<length sparse_payload]"
    "0 \<in> set [0..<length (forecasts (hd sparse_payload))]"
    "1 \<in> set [0..<length (features (hd (forecasts (hd sparse_payload))))]"
    by (simp_all add: sparse_payload_def)
  show ?thesis
    by (rule absent_cell_raises[OF ne ix sel absent])
qed

text \<open>
  C6. Asking the example payload for one location that it does not hold gives an array
  of shape \<open>(3, 0, 2)\<close> and prints nothing: the check of the location axis compares
  \<open>array.shape[1]\<close> with \<open>len(location_indexes)\<close>, which are always equal, where the
  check of the validity times compares with \<open>len(validity_times)\<close>.
\<close>

theorem absent_location_no_warning:
  "to_ndarray_vlf (\<lambda>ts. ts) wire_example example_payload None (Some [loc_X]) None =
     Inr (\<lparr>shape = (3, 0, 2), cells = (\<lambda>idx. NaN)\<rparr>, [])"
proof -
  have ne: "example_payload \<noteq> []" "forecasts (hd example_payload) \<noteq> []"
    by (simp_all add: example_payload_def example_forecasts_def)
  have l: "location_indexes example_payload (Some [loc_X]) = Inr []"
    by (simp add: location_indexes_eq example_payload_def Location_from_pb_def loc_X_def
        loc_A_def loc_B_def)
  have t: "validity_times_indexes (\<lambda>ts. ts) (forecasts (hd example_payload)) None =
             Inr [0..<length (forecasts (hd example_payload))]"
    by (simp add: validity_times_indexes_eq)
  have f: "feature_indexes wire_example (features (hd (forecasts (hd example_payload)))) None =
             Inr [0..<length (features (hd (forecasts (hd example_payload))))]"
    by (simp add: feature_indexes_eq)
  show ?thesis
    unfolding to_ndarray_vlf_eq[OF ne l t f]
    by (simp add: fun_eq_iff example_payload_def example_forecasts_def)
qed


subsection \<open>Empty filters\<close>



subsection \<open>Exceptions of \<open>to_ndarray_vlf\<close>\<close>

text \<open>
  C8. For a payload with at least one location, \<open>to_ndarray_vlf\<close> either returns what
  the body of its \<open>try\<close> statement returns, or the body raises an exception \<open>e\<close> and the
  call raises \<open>RuntimeError\<close> with the cause \<open>e\<close>. The only exception the body raises in
  this model is \<open>IndexError\<close>, from a payload that lacks a selected entry or has no
  validity time in its first location.
\<close>

theorem processing_errors_wrapped:
  assumes "lfs \<noteq> []"
  shows "(\<exists>r. to_ndarray_vlf_try ToDatetime wire lfs vts locs fts = Inr r \<and>
              to_ndarray_vlf ToDatetime wire lfs vts locs fts = Inr r) \<or>
         (\<exists>e. to_ndarray_vlf_try ToDatetime wire lfs vts locs fts = Inl e \<and> e = IndexError \<and>
              to_ndarray_vlf ToDatetime wire lfs vts locs fts =
                Inl (RuntimeError ''Error processing forecast data'' e))"
proof (cases "to_ndarray_vlf_try ToDatetime wire lfs vts locs fts")
  case (Inl e)
  then have "e = IndexError"
    using assms by (auto dest: to_ndarray_vlf_try_Inl)
  with Inl assms show ?thesis
    by (simp add: to_ndarray_vlf_def)
next
  case (Inr r)
  with assms show ?thesis
    by (simp add: to_ndarray_vlf_def)
qed

theorem processing_errors_wrapped_witness:
  "to_ndarray_vlf (\<lambda>ts. ts) wire_example sparse_payload None None
     (Some [SURFACE_SOLAR_RADIATION_DOWNWARDS]) =
       Inl (RuntimeError ''Error processing forecast data'' IndexError) \<and>
   to_ndarray_vlf (\<lambda>ts. ts) wire_example sparse_payload None None (Some [TEMPERATURE_2_METRE]) =
       to_ndarray_vlf_try (\<lambda>ts. ts) wire_example sparse_payload None None
         (Some [TEMPERATURE_2_METRE]) \<and>
   (\<exists>a. to_ndarray_vlf (\<lambda>ts. ts) wire_example sparse_payload None None
          (Some [TEMPERATURE_2_METRE]) = Inr (a, []) \<and> shape a = (1, 2, 1) \<and>
        cells a (0, 0, 0) = Float 1 \<and> cells a (0, 1, 0) = Float 3)"
proof -
  have ne: "sparse_payload \<noteq> []" "forecasts (hd sparse_payload) \<noteq> []"
    by (simp_all add: sparse_payload_def)
  have ix: "location_indexes sparse_payload None = Inr [0..<length sparse_payload]"
    "validity_times_indexes (\<lambda>ts. ts) (forecasts (hd sparse_payload)) None =
       Inr [0..<length (forecasts (hd sparse_payload))]"
    by (simp_all add: location_indexes_eq validity_times_indexes_eq)
  have m: "mapped_feature wire_example 1 = TEMPERATURE_2_METRE"
    "mapped_feature wire_example 6 = SURFACE_SOLAR_RADIATION_DOWNWARDS"
    by (simp_all add: mapped_feature_def ForecastFeature_from_pb_def ForecastFeature_call_def
        members_def bind_exn_def)
  have f6: "feature_indexes wire_example (features (hd (forecasts (hd sparse_payload))))
              (Some [SURFACE_SOLAR_RADIATION_DOWNWARDS]) = Inr [1]"
    and f1: "feature_indexes wire_example (features (hd (forecasts (hd sparse_payload))))
              (Some [TEMPERATURE_2_METRE]) = Inr [0]"
    by (simp_all add: feature_indexes_eq sparse_payload_def entry_def m)
  have "to_ndarray_vlf_try (\<lambda>ts. ts) wire_example sparse_payload None None
          (Some [SURFACE_SOLAR_RADIATION_DOWNWARDS]) = Inl IndexError"
    unfolding to_ndarray_vlf_try_eq[OF ne ix f6]
    by (simp add: sparse_payload_def present_def)
  with processing_errors_wrapped[OF ne(1), of "\<lambda>ts. ts" wire_example None None
      "Some [SURFACE_SOLAR_RADIATION_DOWNWARDS]"]
  have 1: "to_ndarray_vlf (\<lambda>ts. ts) wire_example sparse_payload None None
     (Some [SURFACE_SOLAR_RADIATION_DOWNWARDS]) =
       Inl (RuntimeError ''Error processing forecast data'' IndexError)"
    by auto
  have try1: "to_ndarray_vlf_try (\<lambda>ts. ts) wire_example sparse_payload None None
          (Some [TEMPERATURE_2_METRE]) =
        Inr (\<lparr>shape = (1, 2, 1),
              cells = (\<lambda>(x, y, z). if x < 1 \<and> y < 2 \<and> z < 1
                 then Float (stored sparse_payload y x z) else NaN)\<rparr>, [])"
    unfolding to_ndarray_vlf_try_eq[OF ne ix f1]
    by (auto simp: sparse_payload_def present_def fun_eq_iff less_Suc_eq numeral_2_eq_2)
  with processing_errors_wrapped[OF ne(1), of "\<lambda>ts. ts" wire_example None None
      "Some [TEMPERATURE_2_METRE]"]
  have 2: "to_ndarray_vlf (\<lambda>ts. ts) wire_example sparse_payload None None
          (Some [TEMPERATURE_2_METRE]) =
        Inr (\<lparr>shape = (1, 2, 1),
              cells = (\<lambda>(x, y, z). if x < 1 \<and> y < 2 \<and> z < 1
                 then Float (stored sparse_payload y x z) else NaN)\<rparr>, [])"
    by auto
  show ?thesis
    unfolding 1 2 try1
    by (simp add: stored_def sparse_payload_def entry_def)
qed

subsection \<open>The loops of \<open>flatten\<close>\<close>

lemma flatten_features_cases:
  "(if \<forall>ff\<in>set ffs. \<exists>m. wire m = feature ff
    then \<exists>rows. flatten_features ToDatetime wire lf fc ffs data = Inr (data @ rows) \<and>
           map (wire_row wire) rows = map (entry_row ToDatetime lf fc) ffs
    else \<exists>ff\<in>set ffs. (\<forall>m. wire m \<noteq> feature ff) \<and>
           flatten_features ToDatetime wire lf fc ffs data =
             Inl (NotAValidForecastFeature (feature ff)))"
proof (induction ffs arbitrary: data)
  case Nil
  show ?case by simp
next
  case (Cons ff ffs)
  show ?case
  proof (cases "\<exists>m. wire m = feature ff")
    case False
    then show ?thesis
      by (auto simp: ForecastFeature_call_unknown)
  next
    case True
    then obtain t where t: "ForecastFeature_call wire (feature ff) = Inr t"
      using ForecastFeature_call_Inr_iff by blast
    then have wt: "wire t = feature ff"
      by (rule ForecastFeature_call_wire)
    let ?row = "(ToDatetime (creation_ts lf), pb_latitude (location lf),
      pb_longitude (location lf), ToDatetime (valid_at_ts fc), t, value_of ff)"
    have step: "flatten_features ToDatetime wire lf fc (ff # ffs) data =
        flatten_features ToDatetime wire lf fc ffs (data @ [?row])"
      by (simp add: t)
    have row: "wire_row wire ?row = entry_row ToDatetime lf fc ff"
      by (simp add: wire_row_def entry_row_def wt)
    show ?thesis
    proof (cases "\<forall>ff\<in>set ffs. \<exists>m. wire m = feature ff")
      case all: True
      with Cons.IH[of "data @ [?row]"] obtain rows where
        "flatten_features ToDatetime wire lf fc ffs (data @ [?row]) = Inr ((data @ [?row]) @ rows)"
        "map (wire_row wire) rows = map (entry_row ToDatetime lf fc) ffs"
        by auto
      then have "flatten_features ToDatetime wire lf fc (ff # ffs) data = Inr (data @ (?row # rows))
          \<and> map (wire_row wire) (?row # rows) = map (entry_row ToDatetime lf fc) (ff # ffs)"
        using step row by simp
      then show ?thesis
        using True all by auto
    next
      case some: False
      with Cons.IH[of "data @ [?row]"] obtain ff' where
        "ff' \<in> set ffs" "\<forall>m. wire m \<noteq> feature ff'"
        "flatten_features ToDatetime wire lf fc ffs (data @ [?row]) =
           Inl (NotAValidForecastFeature (feature ff'))"
        by auto
      then show ?thesis
        using step some by auto
    qed
  qed
qed

lemma flatten_forecasts_cases:
  "(if \<forall>fc\<in>set fcs. \<forall>ff\<in>set (features fc). \<exists>m. wire m = feature ff
    then \<exists>rows. flatten_forecasts ToDatetime wire lf fcs data = Inr (data @ rows) \<and>
           map (wire_row wire) rows =
             concat (map (\<lambda>fc. map (entry_row ToDatetime lf fc) (features fc)) fcs)
    else \<exists>fc\<in>set fcs. \<exists>ff\<in>set (features fc). (\<forall>m. wire m \<noteq> feature ff) \<and>
           flatten_forecasts ToDatetime wire lf fcs data =
             Inl (NotAValidForecastFeature (feature ff)))"
proof (induction fcs arbitrary: data)
  case Nil
  show ?case by simp
next
  case (Cons fc fcs)
  show ?case
  proof (cases "\<forall>ff\<in>set (features fc). \<exists>m. wire m = feature ff")
    case False
    with flatten_features_cases[of "features fc" wire ToDatetime lf fc data]
    obtain ff where "ff \<in> set (features fc)" "\<forall>m. wire m \<noteq> feature ff"
      "flatten_features ToDatetime wire lf fc (features fc) data =
         Inl (NotAValidForecastFeature (feature ff))"
      by auto
    then show ?thesis
      using False by auto
  next
    case True
    with flatten_features_cases[of "features fc" wire ToDatetime lf fc data]
    obtain rows1 where r1:
      "flatten_features ToDatetime wire lf fc (features fc) data = Inr (data @ rows1)"
      "map (wire_row wire) rows1 = map (entry_row ToDatetime lf fc) (features fc)"
      by auto
    then have step: "flatten_forecasts ToDatetime wire lf (fc # fcs) data =
        flatten_forecasts ToDatetime wire lf fcs (data @ rows1)"
      by simp
    show ?thesis
    proof (cases "\<forall>fc\<in>set fcs. \<forall>ff\<in>set (features fc). \<exists>m. wire m = feature ff")
      case all: True
      with Cons.IH[of "data @ rows1"] obtain rows where
        "flatten_forecasts ToDatetime wire lf fcs (data @ rows1) = Inr ((data @ rows1) @ rows)"
        "map (wire_row wire) rows =
           concat (map (\<lambda>fc. map (entry_row ToDatetime lf fc) (features fc)) fcs)"
        by auto
      then have "flatten_forecasts ToDatetime wire lf (fc # fcs) data = Inr (data @ (rows1 @ rows))
          \<and> map (wire_row wire) (rows1 @ rows) =
             concat (map (\<lambda>fc. map (entry_row ToDatetime lf fc) (features fc)) (fc # fcs))"
        using step r1(2) by simp
      then show ?thesis
        using True all by auto
    next
      case some: False
      with Cons.IH[of "data @ rows1"] obtain fc' ff' where
        "fc' \<in> set fcs" "ff' \<in> set (features fc')" "\<forall>m. wire m \<noteq> feature ff'"
        "flatten_forecasts ToDatetime wire lf fcs (data @ rows1) =
           Inl (NotAValidForecastFeature (feature ff'))"
        by auto
      then have "\<exists>fc0\<in>set (fc # fcs). \<exists>ff\<in>set (features fc0). (\<forall>m. wire m \<noteq> feature ff) \<and>
           flatten_forecasts ToDatetime wire lf (fc # fcs) data =
             Inl (NotAValidForecastFeature (feature ff))"
        unfolding step by (metis list.set_intros(2))
      moreover have "\<not> (\<forall>fc0\<in>set (fc # fcs). \<forall>ff\<in>set (features fc0). \<exists>m. wire m = feature ff)"
        using some by auto
      ultimately show ?thesis
        by (simp only: if_not_P if_False)
    qed
  qed
qed

lemma flatten_locations_cases:
  "(if \<forall>lf\<in>set lfs. \<forall>fc\<in>set (forecasts lf). \<forall>ff\<in>set (features fc). \<exists>m. wire m = feature ff
    then \<exists>rows. flatten_locations ToDatetime wire lfs data = Inr (data @ rows) \<and>
           map (wire_row wire) rows = entry_rows ToDatetime lfs
    else \<exists>lf\<in>set lfs. \<exists>fc\<in>set (forecasts lf). \<exists>ff\<in>set (features fc).
           (\<forall>m. wire m \<noteq> feature ff) \<and>
           flatten_locations ToDatetime wire lfs data =
             Inl (NotAValidForecastFeature (feature ff)))"
proof (induction lfs arbitrary: data)
  case Nil
  show ?case by (simp add: entry_rows_def)
next
  case (Cons lf lfs)
  show ?case
  proof (cases "\<forall>fc\<in>set (forecasts lf). \<forall>ff\<in>set (features fc). \<exists>m. wire m = feature ff")
    case False
    with flatten_forecasts_cases[of "forecasts lf" wire ToDatetime lf data]
    obtain fc ff where "fc \<in> set (forecasts lf)" "ff \<in> set (features fc)"
      "\<forall>m. wire m \<noteq> feature ff"
      "flatten_forecasts ToDatetime wire lf (forecasts lf) data =
         Inl (NotAValidForecastFeature (feature ff))"
      by auto
    then show ?thesis
      using False by auto
  next
    case True
    with flatten_forecasts_cases[of "forecasts lf" wire ToDatetime lf data]
    obtain rows1 where r1:
      "flatten_forecasts ToDatetime wire lf (forecasts lf) data = Inr (data @ rows1)"
      "map (wire_row wire) rows1 =
         concat (map (\<lambda>fc. map (entry_row ToDatetime lf fc) (features fc)) (forecasts lf))"
      by auto
    then have step: "flatten_locations ToDatetime wire (lf # lfs) data =
        flatten_locations ToDatetime wire lfs (data @ rows1)"
      by simp
    show ?thesis
    proof (cases "\<forall>lf\<in>set lfs. \<forall>fc\<in>set (forecasts lf). \<forall>ff\<in>set (features fc).
        \<exists>m. wire m = feature ff")
      case all: True
      with Cons.IH[of "data @ rows1"] obtain rows where
        "flatten_locations ToDatetime wire lfs (data @ rows1) = Inr ((data @ rows1) @ rows)"
        "map (wire_row wire) rows = entry_rows ToDatetime lfs"
        by auto
      then have "flatten_locations ToDatetime wire (lf # lfs) data = Inr (data @ (rows1 @ rows))
          \<and> map (wire_row wire) (rows1 @ rows) = entry_rows ToDatetime (lf # lfs)"
        using step r1(2) by (simp add: entry_rows_def)
      then show ?thesis
        using True all by auto
    next
      case some: False
      with Cons.IH[of "data @ rows1"] obtain lf' fc' ff' where
        "lf' \<in> set lfs" "fc' \<in> set (forecasts lf')" "ff' \<in> set (features fc')"
        "\<forall>m. wire m \<noteq> feature ff'"
        "flatten_locations ToDatetime wire lfs (data @ rows1) =
           Inl (NotAValidForecastFeature (feature ff'))"
        by auto
      then have "\<exists>lf0\<in>set (lf # lfs). \<exists>fc\<in>set (forecasts lf0). \<exists>ff\<in>set (features fc).
           (\<forall>m. wire m \<noteq> feature ff) \<and>
           flatten_locations ToDatetime wire (lf # lfs) data =
             Inl (NotAValidForecastFeature (feature ff))"
        unfolding step by (metis list.set_intros(2))
      moreover have "\<not> (\<forall>lf0\<in>set (lf # lfs). \<forall>fc\<in>set (forecasts lf0). \<forall>ff\<in>set (features fc).
          \<exists>m. wire m = feature ff)"
        using some by auto
      ultimately show ?thesis
        by (simp only: if_not_P if_False)
    qed
  qed
qed

subsection \<open>The result of \<open>HistoricalForecasts.flatten\<close>\<close>

lemma wire_example_unknown: "\<forall>m. wire_example m \<noteq> 99"
proof
  fix m show "wire_example m \<noteq> 99" by (cases m) simp_all
qed

text \<open>
  C4. On a payload without locations both \<open>to_ndarray_vlf\<close>, whatever the filters, and
  \<open>HistoricalForecasts.flatten\<close> raise \<open>ValueError("Forecast data is missing or
  invalid.")\<close>; the check is the first statement of each. On a payload with a location
  neither raises a \<open>ValueError\<close> made by a \<open>raise\<close> statement of the module.
\<close>

theorem empty_payload_error:
  "to_ndarray_vlf ToDatetime wire [] vts locs fts =
     Inl (ValueError ''Forecast data is missing or invalid.'') \<and>
   HistoricalForecasts_flatten ToDatetime wire [] =
     Inl (ValueError ''Forecast data is missing or invalid.'') \<and>
   (lfs \<noteq> [] \<longrightarrow>
      (\<forall>msg. to_ndarray_vlf ToDatetime wire lfs vts locs fts \<noteq> Inl (ValueError msg)) \<and>
      (\<forall>msg. HistoricalForecasts_flatten ToDatetime wire lfs \<noteq> Inl (ValueError msg)))"
proof -
  have "to_ndarray_vlf ToDatetime wire lfs vts locs fts \<noteq> Inl (ValueError msg)"
    if "lfs \<noteq> []" for msg
    using that by (auto simp: to_ndarray_vlf_def split: sum.splits)
  moreover have "HistoricalForecasts_flatten ToDatetime wire lfs \<noteq> Inl (ValueError msg)"
    if "lfs \<noteq> []" for msg
    using that flatten_locations_cases[of lfs wire ToDatetime "[]"]
    by (auto simp: HistoricalForecasts_flatten_def flatten_def split: if_splits)
  ultimately show ?thesis
    by (simp add: to_ndarray_vlf_def HistoricalForecasts_flatten_def)
qed

theorem empty_payload_error_witness:
  "to_ndarray_vlf (\<lambda>ts. ts) wire_example ([] :: int LocationForecast list) None
     (Some [loc_X]) None =
     Inl (ValueError ''Forecast data is missing or invalid.'') \<and>
   HistoricalForecasts_flatten (\<lambda>ts. ts) wire_example ([] :: int LocationForecast list) =
     Inl (ValueError ''Forecast data is missing or invalid.'') \<and>
   to_ndarray_vlf (\<lambda>ts. ts) wire_example no_forecasts_payload None (Some [loc_X]) None \<noteq>
     Inl (ValueError ''Forecast data is missing or invalid.'') \<and>
   HistoricalForecasts_flatten (\<lambda>ts. ts) wire_example unknown_code_payload \<noteq>
     Inl (ValueError ''Forecast data is missing or invalid.'')"
proof -
  have "no_forecasts_payload \<noteq> []" "unknown_code_payload \<noteq> []"
    by (simp_all add: no_forecasts_payload_def unknown_code_payload_def)
  then show ?thesis
    using empty_payload_error[of "\<lambda>ts. ts" wire_example None "Some [loc_X]" None
        no_forecasts_payload]
      empty_payload_error[of "\<lambda>ts. ts" wire_example None None None unknown_code_payload]
    by simp
qed




text \<open>
  C10. When some feature entry of the payload has an integer that is no member's value,
  \<open>HistoricalForecasts.flatten\<close> raises the \<open>ValueError\<close> of the enum lookup for such an
  entry of the payload; the exception is not wrapped, and no rows are returned. For the
  same integer \<open>ForecastFeature.from_pb\<close> returns \<open>UNSPECIFIED\<close>.
\<close>

theorem flatten_unknown_code_raises:
  assumes "lf \<in> set lfs" and "fc \<in> set (forecasts lf)" and "ff \<in> set (features fc)"
    and "\<forall>m. wire m \<noteq> feature ff"
  shows "\<exists>lf'\<in>set lfs. \<exists>fc'\<in>set (forecasts lf'). \<exists>ff'\<in>set (features fc').
           (\<forall>m. wire m \<noteq> feature ff') \<and>
           HistoricalForecasts_flatten ToDatetime wire lfs =
             Inl (NotAValidForecastFeature (feature ff')) \<and>
           is_ValueError (NotAValidForecastFeature (feature ff')) \<and>
           ForecastFeature_from_pb wire (feature ff') =
             Inr (UNSPECIFIED, [Unknown_forecast_feature (feature ff')])"
proof -
  have "\<not> (\<forall>lf\<in>set lfs. \<forall>fc\<in>set (forecasts lf). \<forall>ff\<in>set (features fc).
      \<exists>m. wire m = feature ff)"
    using assms by blast
  with flatten_locations_cases[of lfs wire ToDatetime "[]"]
  have "\<exists>lf\<in>set lfs. \<exists>fc\<in>set (forecasts lf). \<exists>ff\<in>set (features fc).
      (\<forall>m. wire m \<noteq> feature ff) \<and>
      flatten_locations ToDatetime wire lfs [] = Inl (NotAValidForecastFeature (feature ff))"
    by (simp only: if_not_P if_False)
  then obtain lf' fc' ff' where u: "lf' \<in> set lfs" "fc' \<in> set (forecasts lf')"
    "ff' \<in> set (features fc')" "\<forall>m. wire m \<noteq> feature ff'"
    "flatten_locations ToDatetime wire lfs [] = Inl (NotAValidForecastFeature (feature ff'))"
    by blast
  have "lfs \<noteq> []"
    using assms(1) by auto
  then have "HistoricalForecasts_flatten ToDatetime wire lfs =
      Inl (NotAValidForecastFeature (feature ff'))"
    using u(5) by (simp add: HistoricalForecasts_flatten_def flatten_def)
  moreover have "ForecastFeature_from_pb wire (feature ff') =
      Inr (UNSPECIFIED, [Unknown_forecast_feature (feature ff')])"
    using u(4) by (simp add: ForecastFeature_from_pb_cases)
  ultimately show ?thesis
    using u(1-4) by auto
qed

theorem flatten_unknown_code_raises_witness:
  "HistoricalForecasts_flatten (\<lambda>ts. ts) wire_example (example_payload @ unknown_code_payload) =
     Inl (NotAValidForecastFeature 99) \<and>
   ForecastFeature_from_pb wire_example 99 = Inr (UNSPECIFIED, [Unknown_forecast_feature 99])"
proof -
  let ?lf = "hd unknown_code_payload"
  let ?fc = "hd (forecasts ?lf)"
  have mem: "?lf \<in> set (example_payload @ unknown_code_payload)" "?fc \<in> set (forecasts ?lf)"
    "entry 99 2 \<in> set (features ?fc)"
    by (simp_all add: unknown_code_payload_def)
  have unk: "\<forall>m. wire_example m \<noteq> feature (entry 99 2)"
    using wire_example_unknown by (simp add: entry_def)
  have codes: "feature ff' \<in> {1, 6, 99}"
    if "lf' \<in> set (example_payload @ unknown_code_payload)" "fc' \<in> set (forecasts lf')"
      "ff' \<in> set (features fc')" for lf' fc' ff'
    using that
    by (auto simp: example_payload_def example_forecasts_def unknown_code_payload_def entry_def)
  have known: "wire_example TEMPERATURE_2_METRE = 1"
    "wire_example SURFACE_SOLAR_RADIATION_DOWNWARDS = 6"
    by simp_all
  from flatten_unknown_code_raises[OF mem unk, of "\<lambda>ts. ts"]
  obtain lf' fc' ff' where u: "lf' \<in> set (example_payload @ unknown_code_payload)"
    "fc' \<in> set (forecasts lf')" "ff' \<in> set (features fc')"
    "\<forall>m. wire_example m \<noteq> feature ff'"
    "HistoricalForecasts_flatten (\<lambda>ts. ts) wire_example (example_payload @ unknown_code_payload) =
       Inl (NotAValidForecastFeature (feature ff'))"
    "ForecastFeature_from_pb wire_example (feature ff') =
       Inr (UNSPECIFIED, [Unknown_forecast_feature (feature ff')])"
    by blast
  have "feature ff' = 99"
    using codes[OF u(1-3)] u(4) known by (metis insertE singletonD)
  with u(5,6) show ?thesis by simp
qed

subsection \<open>Resolution of the filters\<close>









end
